theory Spec2Isabelle
  imports Complex_Main
begin

section \<open>ASEG-GDF format strings: \<^verbatim>\<open>geophys_utils/netcdf_converter/aseg_gdf_utils.py\<close>\<close>

text \<open>
  The module works on Python strings, Python integers and numpy arrays.  Strings are
  modelled as \<^typ>\<open>string\<close> restricted to ASCII: the character classes \<^verbatim>\<open>\d\<close> and
  \<^verbatim>\<open>\w\<close> and the method \<^verbatim>\<open>upper\<close> are the ASCII ones.  Python integers are \<^typ>\<open>int\<close>.
  An exception is a value of \<open>pyerror\<close>, and a function that can raise returns
  \<open>pyerror + 'a\<close>.  Calls to the logger have no effect on any result and are left out.
\<close>

subsection \<open>Exceptions\<close>

datatype pyerror =
    BaseException string
  | AssertionError string
  | KeyError string
  | ValueError string
  | TypeError string
  | AttributeError string
  | UnboundLocalError string

subsection \<open>Characters and numbers in strings\<close>

definition is_digit :: "char \<Rightarrow> bool" where
  "is_digit c \<longleftrightarrow> c \<in> set ''0123456789''"

definition is_alpha :: "char \<Rightarrow> bool" where
  "is_alpha c \<longleftrightarrow>
     c \<in> set ''abcdefghijklmnopqrstuvwxyz'' \<or> c \<in> set ''ABCDEFGHIJKLMNOPQRSTUVWXYZ''"

definition is_word :: "char \<Rightarrow> bool" where
  \<comment> \<open>the class \<^verbatim>\<open>\w\<close>: a letter, a digit or the underscore\<close>
  "is_word c \<longleftrightarrow> is_alpha c \<or> is_digit c \<or> c = CHR ''_''"

definition upper_char :: "char \<Rightarrow> char" where
  "upper_char c =
     (case map_of (zip ''abcdefghijklmnopqrstuvwxyz'' ''ABCDEFGHIJKLMNOPQRSTUVWXYZ'') c of
        Some u \<Rightarrow> u
      | None \<Rightarrow> c)"

definition upper :: "string \<Rightarrow> string" where
  "upper s = map upper_char s"

definition digit_val :: "char \<Rightarrow> int" where
  "digit_val c = int (of_char c) - 48"

definition int_of_digits :: "string \<Rightarrow> int" where
  \<comment> \<open>Python's \<^verbatim>\<open>int(s)\<close> on a non-empty string of decimal digits\<close>
  "int_of_digits s = foldl (\<lambda>a c. 10 * a + digit_val c) 0 s"

definition digit_char :: "nat \<Rightarrow> char" where
  "digit_char n = ''0123456789'' ! n"

fun str_nat :: "nat \<Rightarrow> string" where
  "str_nat n = (if n < 10 then [digit_char n] else str_nat (n div 10) @ [digit_char (n mod 10)])"

declare str_nat.simps [simp del]

definition str_int :: "int \<Rightarrow> string" where
  \<comment> \<open>Python's \<^verbatim>\<open>str(i)\<close> and \<^verbatim>\<open>'{}'.format(i)\<close> on an integer\<close>
  "str_int i = (if i < 0 then CHR ''-'' # str_nat (nat (- i)) else str_nat (nat i))"

subsection \<open>The tables\<close>

definition SIG_FIGS :: "(string \<times> int) list" where
  \<comment> \<open>an ordered dictionary: the order of the entries is the order of iteration\<close>
  "SIG_FIGS =
     [(''int8'', 2), (''int16'', 4), (''int32'', 10), (''int64'', 19),
      (''float32'', 7), (''float64'', 20)]"

definition DTYPE_REDUCTION_LISTS :: "string list list" where
  "DTYPE_REDUCTION_LISTS =
     [[''int64'', ''int32'', ''int16'', ''int8''], [''float64'', ''float32'']]"

definition ASEG_DTYPE_CODE_MAPPING :: "(string \<times> string) list" where
  "ASEG_DTYPE_CODE_MAPPING =
     [(''int16'', ''I''), (''int32'', ''I''), (''int64'', ''I''),
      (''float32'', ''F''), (''float64'', ''D''), (''str'', ''A'')]"

definition startswith :: "string \<Rightarrow> string \<Rightarrow> bool" where
  "startswith s p \<longleftrightarrow> take (length p) s = p"

subsection \<open>\<^verbatim>\<open>re.match('(\d+)*(\w)(\d+)\.*(\d+)*', s)\<close>\<close>

text \<open>
  \<^verbatim>\<open>re.match\<close> matches a prefix of the string and backtracks in a fixed order; the
  result is the first way that succeeds.  The four groups are returned as
  \<open>(group 1, group 2, group 3, group 4)\<close>, an unmatched optional group as \<open>None\<close>.

  \<open>match_rest\<close> is the pattern after the first group, \<^verbatim>\<open>(\w)(\d+)\.*(\d+)*\<close>: one word
  character, then the longest run of digits, which must not be empty, the longest run of
  dots and the longest run of digits.  Everything after \<^verbatim>\<open>(\d+)\<close> can match the empty
  string, so the greedy choices made there are never undone.

  \<open>match_star n g1 s\<close> is the first group, \<^verbatim>\<open>(\d+)*\<close>, at the rest \<open>s\<close> of the string,
  when the group last captured \<open>g1\<close>: it tries one more iteration of \<open>n\<close>, \<open>n - 1\<close>,
  ..., \<open>1\<close> digits (greedy: the longest first, and another iteration before leaving the
  star), each followed by the star again, and then leaves the star and matches the rest
  of the pattern.  A failed iteration restores the group to \<open>g1\<close>.
\<close>

type_synonym groups = "string option \<times> string \<times> string \<times> string option"

definition match_rest :: "string option \<Rightarrow> string \<Rightarrow> groups option" where
  "match_rest g1 s =
     (case s of
        [] \<Rightarrow> None
      | w # t \<Rightarrow>
          if is_word w \<and> takeWhile is_digit t \<noteq> [] then
            let g3 = takeWhile is_digit t;
                u = dropWhile (\<lambda>c. c = CHR ''.'') (dropWhile is_digit t);
                g4 = takeWhile is_digit u
            in Some (g1, [w], g3, if g4 = [] then None else Some g4)
          else None)"

function match_star :: "nat \<Rightarrow> string option \<Rightarrow> string \<Rightarrow> groups option" where
  "match_star 0 g1 s = match_rest g1 s"
| "match_star (Suc n) g1 s =
     (if Suc n \<le> length (takeWhile is_digit s) then
        (case match_star (length (takeWhile is_digit (drop (Suc n) s)))
                (Some (take (Suc n) s)) (drop (Suc n) s) of
           Some r \<Rightarrow> Some r
         | None \<Rightarrow> match_star n g1 s)
      else match_star n g1 s)"
  by pat_completeness auto
termination
proof (relation "measures [\<lambda>(n, g1, s). length s, \<lambda>(n, g1, s). n]", goal_cases)
  case 1
  show ?case by simp
next
  case (2 n g1 s)
  have "length (takeWhile is_digit s) \<le> length s"
    by (rule length_takeWhile_le)
  with 2 have "length s - Suc n < length s"
    by linarith
  then show ?case by simp
next
  case (3 n g1 s)
  show ?case by simp
next
  case (4 n g1 s)
  show ?case by simp
qed

definition re_match :: "string \<Rightarrow> groups option" where
  "re_match s = match_star (length (takeWhile is_digit s)) None s"

subsection \<open>\<^verbatim>\<open>decode_aseg_gdf_format\<close>\<close>

text \<open>
  \<^verbatim>\<open>columns = match.group(1) or 1\<close> is the matched string when the group matched (it is
  then not empty, hence true) and the integer 1 otherwise: the value is a string or an
  integer.
\<close>

datatype columns = ColStr string | ColInt int

type_synonym decoded = "columns \<times> string \<times> int \<times> int"

definition decode_aseg_gdf_format :: "string \<Rightarrow> pyerror + decoded" where
  "decode_aseg_gdf_format aseg_gdf_format =
     (if aseg_gdf_format = [] then
        Inl (BaseException ''No ASEG-GDF format string to decode'')
      else
        case re_match aseg_gdf_format of
          None \<Rightarrow>
            Inl (BaseException (''Invalid ASEG-GDF format string '' @ aseg_gdf_format))
        | Some (g1, g2, g3, g4) \<Rightarrow>
            Inr (case g1 of Some c \<Rightarrow> ColStr c | None \<Rightarrow> ColInt 1,
                 upper g2,
                 int_of_digits g3,
                 case g4 of Some f \<Rightarrow> int_of_digits f | None \<Rightarrow> 0))"


subsection \<open>\<^verbatim>\<open>aseg_gdf_format2dtype\<close>\<close>

text \<open>
  The returned \<^verbatim>\<open>dtype\<close> is the name of a numeric kind or, for the type code \<^verbatim>\<open>A\<close>,
  the Python type \<^verbatim>\<open>str\<close> itself.

  \<open>find_dtype p n\<close> is the loop over \<^verbatim>\<open>SIG_FIGS.items()\<close> that stops at the first
  entry whose name starts with \<open>p\<close> and whose figure is at least \<open>n\<close>.
  \<open>resolve_dtype\<close> is the first \<^verbatim>\<open>if\<close>/\<^verbatim>\<open>elif\<close> statement of the function: it
  leaves the local variable \<^verbatim>\<open>dtype\<close> set, or \<^verbatim>\<open>None\<close> for any other type code.
  The second statement is a separate \<^verbatim>\<open>if\<close> with an \<^verbatim>\<open>else\<close> branch.
\<close>

datatype pydtype = Named string | StrType

definition find_dtype :: "string \<Rightarrow> int \<Rightarrow> string option" where
  "find_dtype p n =
     map_option fst (find (\<lambda>(test_dtype, sig_figs). startswith test_dtype p \<and> sig_figs \<ge> n) SIG_FIGS)"

definition resolve_dtype :: "string \<Rightarrow> int \<Rightarrow> int \<Rightarrow> pyerror + string option" where
  "resolve_dtype aseg_dtype_code integer_digits fractional_digits =
     (if aseg_dtype_code = ''I'' then
        if fractional_digits \<noteq> 0 then
          Inl (AssertionError ''Integer format cannot be defined with fractional digits'')
        else
          case find_dtype ''int'' integer_digits of
            None \<Rightarrow> Inl (AssertionError (''Invalid integer length of '' @ str_int integer_digits))
          | Some d \<Rightarrow> Inr (Some d)
      else if aseg_dtype_code \<in> set [''D'', ''E'', ''F''] then
        case find_dtype ''float'' (integer_digits + fractional_digits) of
          None \<Rightarrow>
            Inl (AssertionError (''Invalid floating point format of '' @ str_int integer_digits
                                  @ ''.'' @ str_int fractional_digits))
        | Some d \<Rightarrow> Inr (Some d)
      else Inr None)"

definition aseg_gdf_format2dtype :: "string \<Rightarrow> pyerror + (pydtype \<times> columns \<times> int \<times> int)" where
  "aseg_gdf_format2dtype aseg_gdf_format =
     (case decode_aseg_gdf_format aseg_gdf_format of
        Inl e \<Rightarrow> Inl e
      | Inr (columns, aseg_dtype_code, integer_digits, fractional_digits) \<Rightarrow>
          (case resolve_dtype aseg_dtype_code integer_digits fractional_digits of
             Inl e \<Rightarrow> Inl e
           | Inr dtype \<Rightarrow>
               if aseg_dtype_code = ''A'' then
                 if fractional_digits \<noteq> 0 then
                   Inl (AssertionError ''String format cannot be defined with fractional digits'')
                 else Inr (StrType, columns, integer_digits, fractional_digits)
               else
                 Inl (BaseException (''Unhandled ASEG-GDF dtype code '' @ aseg_dtype_code))))"

subsection \<open>Which strings \<^verbatim>\<open>re.match\<close> accepts\<close>

text \<open>
  \<open>has_specifier_prefix s\<close>: the string begins with any number of digits, then a word
  character, then a digit.
\<close>

fun has_specifier_prefix :: "string \<Rightarrow> bool" where
  "has_specifier_prefix (c # d # r) \<longleftrightarrow>
     (is_word c \<and> is_digit d) \<or> (is_digit c \<and> has_specifier_prefix (d # r))"
| "has_specifier_prefix _ \<longleftrightarrow> False"

definition frac_run :: "string \<Rightarrow> string" where
  \<comment> \<open>after the run of digits: the digits that follow the run of dots\<close>
  "frac_run t = takeWhile is_digit (dropWhile (\<lambda>c. c = CHR ''.'') (dropWhile is_digit t))"

section \<open>Arrays\<close>

text \<open>
  The functions below take a numpy array, a numpy masked array or a netCDF variable.  The
  model keeps what the code reads of it: the shape, the printed name of the element kind
  (\<^verbatim>\<open>str(array.dtype)\<close>), the elements in row-major order (for a masked array the
  underlying \<^verbatim>\<open>.data\<close>, masked positions included), the attribute
  \<^verbatim>\<open>aseg_gdf_format\<close> when the object has one, and the fill value when the object is a
  masked array.

  Integer elements are machine integers: an operation on an array of a \<open>w\<close>-bit kind
  wraps around modulo \<open>2 ^ w\<close>, as numpy does without a warning.  Floating-point
  elements are idealised as real numbers: rounding inside an operation, NaN and the
  infinities are not modelled.  What the conversion to \<^verbatim>\<open>float32\<close>, the conversion of
  a float to an integer kind and \<^verbatim>\<open>str\<close> of a float return is not fixed by the
  repository; these three library functions are parameters \<open>L\<close> of the model.
\<close>

datatype scalar = IntV int | FloatV real

datatype ndata = IntData "int list" | FloatData "real list" | TextData "string list"

record ndarray =
  arr_shape :: "nat list"
  arr_dtype :: string
  arr_data :: ndata
  attr_aseg_gdf_format :: "string option"
  ma_fill_value :: "scalar option"

record numpy_lib =
  to_float32 :: "real \<Rightarrow> real"
  float_to_int :: "nat \<Rightarrow> real \<Rightarrow> int"
  str_float :: "real \<Rightarrow> string"

definition int_width :: "string \<Rightarrow> nat option" where
  "int_width dtype =
     map_of [(''int8'', 8), (''int16'', 16), (''int32'', 32), (''int64'', 64)] dtype"

definition swrap :: "nat \<Rightarrow> int \<Rightarrow> int" where
  \<comment> \<open>the value of an integer in \<open>w\<close>-bit two's complement\<close>
  "swrap w x = (x + 2 ^ (w - 1)) mod 2 ^ w - 2 ^ (w - 1)"

definition wrap_dtype :: "string \<Rightarrow> int \<Rightarrow> int" where
  "wrap_dtype dtype x = (case int_width dtype of Some w \<Rightarrow> swrap w x | None \<Rightarrow> x)"

definition scalar_val :: "scalar \<Rightarrow> real" where
  "scalar_val v = (case v of IntV i \<Rightarrow> real_of_int i | FloatV r \<Rightarrow> r)"

definition eq_scalar :: "scalar \<Rightarrow> scalar \<Rightarrow> bool" where
  \<comment> \<open>\<^verbatim>\<open>==\<close> on two numbers\<close>
  "eq_scalar u v \<longleftrightarrow> scalar_val u = scalar_val v"

definition elems :: "ndata \<Rightarrow> scalar list" where
  "elems d = (case d of IntData xs \<Rightarrow> map IntV xs | FloatData xs \<Rightarrow> map FloatV xs
              | TextData xs \<Rightarrow> [])"

definition np_values :: "ndata \<Rightarrow> pyerror + real list" where
  \<comment> \<open>the numbers a reduction works on; a reduction over text raises\<close>
  "np_values d =
     (case d of
        IntData xs \<Rightarrow> Inr (map real_of_int xs)
      | FloatData xs \<Rightarrow> Inr xs
      | TextData xs \<Rightarrow> Inl (TypeError ''cannot perform reduce with flexible type''))"

definition np_nanmin :: "ndata \<Rightarrow> pyerror + real" where
  "np_nanmin d =
     (case np_values d of
        Inl e \<Rightarrow> Inl e
      | Inr xs \<Rightarrow>
          if xs = [] then Inl (ValueError ''zero-size array to reduction operation'')
          else Inr (Min (set xs)))"

definition np_nanmax :: "ndata \<Rightarrow> pyerror + real" where
  "np_nanmax d =
     (case np_values d of
        Inl e \<Rightarrow> Inl e
      | Inr xs \<Rightarrow>
          if xs = [] then Inl (ValueError ''zero-size array to reduction operation'')
          else Inr (Max (set xs)))"

definition np_abs :: "string \<Rightarrow> ndata \<Rightarrow> ndata" where
  \<comment> \<open>\<^verbatim>\<open>np.abs\<close> on an array of kind \<open>dtype\<close>: on a \<open>w\<close>-bit kind the result wraps\<close>
  "np_abs dtype d =
     (case d of
        IntData xs \<Rightarrow> IntData (map (\<lambda>x. wrap_dtype dtype \<bar>x\<bar>) xs)
      | FloatData xs \<Rightarrow> FloatData (map abs xs)
      | TextData xs \<Rightarrow> TextData xs)"

definition math_log10 :: "real \<Rightarrow> pyerror + real" where
  "math_log10 x = (if x \<le> 0 then Inl (ValueError ''math domain error'') else Inr (log 10 x))"

subsection \<open>\<^verbatim>\<open>variable2aseg_gdf_format\<close>\<close>

text \<open>
  The result is the tuple \<^verbatim>\<open>(aseg_gdf_format, dtype, columns, integer_digits,
  fractional_digits, python_format)\<close>.  In the branch for the type code \<^verbatim>\<open>A\<close> the
  local variable \<^verbatim>\<open>aseg_gdf_format\<close> is never assigned, so the statements after the
  branch, which read it, raise \<^verbatim>\<open>UnboundLocalError\<close>.
\<close>

type_synonym column_spec = "string \<times> string \<times> int \<times> int \<times> int \<times> string"

definition sig_figs_of :: "string \<Rightarrow> pyerror + int" where
  \<comment> \<open>\<^verbatim>\<open>SIG_FIGS[dtype] + 1\<close>\<close>
  "sig_figs_of dtype =
     (case map_of SIG_FIGS dtype of
        None \<Rightarrow> Inl (KeyError dtype)
      | Some n \<Rightarrow> Inr (n + 1))"

definition integer_digits_of :: "string \<Rightarrow> ndata \<Rightarrow> pyerror + int" where
  \<comment> \<open>\<^verbatim>\<open>ceil(log10(np.nanmax(np.abs(data_array)) + 1.0))\<close>\<close>
  "integer_digits_of dtype data_array =
     (case np_nanmax (np_abs dtype data_array) of
        Inl e \<Rightarrow> Inl e
      | Inr m \<Rightarrow>
          (case math_log10 (m + 1) of
             Inl e \<Rightarrow> Inl e
           | Inr l \<Rightarrow> Inr \<lceil>l\<rceil>))"

definition float_fractional_digits ::
  "ndarray \<Rightarrow> int option \<Rightarrow> int \<Rightarrow> int \<Rightarrow> pyerror + int" where
  "float_fractional_digits array_variable decimal_places sig_figs integer_digits =
     (case decimal_places of
        Some dp \<Rightarrow> Inr (min dp (sig_figs - integer_digits))
      | None \<Rightarrow>
          (case attr_aseg_gdf_format array_variable of
             Some s \<Rightarrow>
               (case decode_aseg_gdf_format s of
                  Inl e \<Rightarrow> Inl e
                | Inr (columns', aseg_dtype_code', integer_digits', fractional_digits) \<Rightarrow>
                    Inr (min fractional_digits (sig_figs - integer_digits + 1)))
           | None \<Rightarrow> Inr (sig_figs - integer_digits + 1)))"

definition prepend_columns :: "int \<Rightarrow> string \<Rightarrow> string" where
  "prepend_columns columns aseg_gdf_format =
     (if columns > 1 then str_int columns @ aseg_gdf_format else aseg_gdf_format)"

definition variable2aseg_gdf_format :: "ndarray \<Rightarrow> int option \<Rightarrow> pyerror + column_spec" where
  "variable2aseg_gdf_format array_variable decimal_places =
     (if length (arr_shape array_variable) \<noteq> 1 \<and> length (arr_shape array_variable) \<noteq> 2 then
        Inl (BaseException ''Unable to handle arrays with dimensionality > 3'')
      else
        let columns = (if length (arr_shape array_variable) = 1 then 1
                       else int (arr_shape array_variable ! 1));
            dtype = arr_dtype array_variable;
            data_array = arr_data array_variable
        in
        case sig_figs_of dtype of
          Inl e \<Rightarrow> Inl e
        | Inr sig_figs \<Rightarrow>
        case np_nanmin data_array of
          Inl e \<Rightarrow> Inl e
        | Inr lowest \<Rightarrow>
        let sign_width = (if lowest < 0 then 1 else 0) in
        case integer_digits_of dtype data_array of
          Inl e \<Rightarrow> Inl e
        | Inr integer_digits \<Rightarrow>
        case map_of ASEG_DTYPE_CODE_MAPPING dtype of
          None \<Rightarrow> Inl (AssertionError (''Unhandled dtype '' @ dtype))
        | Some aseg_dtype_code \<Rightarrow>
            if aseg_dtype_code = ''I'' then
              let fractional_digits = 0;
                  aseg_gdf_format = ''I'' @ str_int integer_digits;
                  python_format = ''{:'' @ str_int (sign_width + integer_digits) @ ''.''
                                  @ str_int fractional_digits @ ''f}''
              in Inr (prepend_columns columns aseg_gdf_format, dtype, columns, integer_digits,
                      fractional_digits, python_format)
            else if aseg_dtype_code \<in> set [''F'', ''D''] then
              case float_fractional_digits array_variable decimal_places sig_figs integer_digits of
                Inl e \<Rightarrow> Inl e
              | Inr fractional_digits \<Rightarrow>
                  let aseg_gdf_format = aseg_dtype_code @ str_int integer_digits @ ''.''
                                        @ str_int fractional_digits;
                      python_format = ''{:''
                                      @ str_int (sign_width + integer_digits + fractional_digits + 1)
                                      @ ''.'' @ str_int fractional_digits @ ''f}''
                  in Inr (prepend_columns columns aseg_gdf_format, dtype, columns, integer_digits,
                          fractional_digits, python_format)
            else if aseg_dtype_code = ''A'' then
              case (case attr_aseg_gdf_format array_variable of
                      Some s \<Rightarrow> map_sum id (\<lambda>r. ()) (decode_aseg_gdf_format s)
                    | None \<Rightarrow> Inr ()) of
                Inl e \<Rightarrow> Inl e
              | Inr u \<Rightarrow>
                  Inl (UnboundLocalError
                         ''local variable aseg_gdf_format referenced before assignment'')
            else Inl (BaseException (''Unhandled ASEG-GDF dtype code '' @ aseg_dtype_code)))"


subsection \<open>Array operations of \<^verbatim>\<open>fix_field_precision\<close>\<close>

fun index_of :: "'a list \<Rightarrow> 'a \<Rightarrow> nat option" where
  \<comment> \<open>\<^verbatim>\<open>list.index\<close>; \<open>None\<close> stands for the \<^verbatim>\<open>ValueError\<close> it raises\<close>
  "index_of [] x = None"
| "index_of (y # ys) x = (if y = x then Some 0 else map_option Suc (index_of ys x))"

definition real_values :: "ndata \<Rightarrow> real list" where
  "real_values d =
     (case d of IntData xs \<Rightarrow> map real_of_int xs | FloatData xs \<Rightarrow> xs | TextData xs \<Rightarrow> [])"

definition astype :: "numpy_lib \<Rightarrow> string \<Rightarrow> ndata \<Rightarrow> pyerror + ndata" where
  \<comment> \<open>\<^verbatim>\<open>data_array.astype(dtype)\<close>: an integer cast to a narrower integer kind keeps the
      low bits; text is outside the model and stands for a conversion that fails\<close>
  "astype L dtype d =
     (case d of
        IntData xs \<Rightarrow>
          (case int_width dtype of
             Some w \<Rightarrow> Inr (IntData (map (swrap w) xs))
           | None \<Rightarrow>
               if dtype = ''float32''
               then Inr (FloatData (map (\<lambda>x. to_float32 L (real_of_int x)) xs))
               else Inr (FloatData (map real_of_int xs)))
      | FloatData xs \<Rightarrow>
          (case int_width dtype of
             Some w \<Rightarrow> Inr (IntData (map (float_to_int L w) xs))
           | None \<Rightarrow>
               if dtype = ''float32'' then Inr (FloatData (map (to_float32 L) xs))
               else Inr (FloatData xs))
      | TextData xs \<Rightarrow> Inl (ValueError ''could not convert string''))"

definition result_type :: "string \<Rightarrow> string \<Rightarrow> string" where
  \<comment> \<open>the kind of the result of an operation on two arrays: of two integer kinds the
      wider one\<close>
  "result_type dtype1 dtype2 =
     (case (int_width dtype1, int_width dtype2) of
        (Some w1, Some w2) \<Rightarrow> if w1 \<ge> w2 then dtype1 else dtype2
      | _ \<Rightarrow> ''float64'')"

definition np_sub :: "string \<Rightarrow> ndata \<Rightarrow> ndata \<Rightarrow> ndata" where
  \<comment> \<open>\<^verbatim>\<open>a - b\<close> for two arrays whose result has kind \<open>dtype\<close>\<close>
  "np_sub dtype a b =
     (case (a, b) of
        (IntData xs, IntData ys) \<Rightarrow> IntData (map2 (\<lambda>x y. wrap_dtype dtype (x - y)) xs ys)
      | _ \<Rightarrow> FloatData (map2 (\<lambda>x y. x - y) (real_values a) (real_values b)))"

definition py_pow10 :: "int \<Rightarrow> real" where
  \<comment> \<open>\<^verbatim>\<open>pow(10, e)\<close>: an integer for \<open>e \<ge> 0\<close>, a float otherwise\<close>
  "py_pow10 e = (if e \<ge> 0 then 10 ^ nat e else 1 / 10 ^ nat (- e))"

definition count_nonzero_ge :: "ndata \<Rightarrow> real \<Rightarrow> nat" where
  \<comment> \<open>\<^verbatim>\<open>np.count_nonzero(a >= t)\<close>\<close>
  "count_nonzero_ge a t = length (filter (\<lambda>v. v \<ge> t) (real_values a))"

definition equal_mask :: "ndata \<Rightarrow> scalar \<Rightarrow> bool list" where
  \<comment> \<open>\<^verbatim>\<open>data_array == value\<close>\<close>
  "equal_mask d v = map (\<lambda>x. eq_scalar x v) (elems d)"

definition select :: "bool list \<Rightarrow> 'a list \<Rightarrow> 'a list" where
  \<comment> \<open>\<^verbatim>\<open>data_array[mask]\<close>\<close>
  "select msk xs = map fst (filter snd (zip xs msk))"

subsection \<open>Truncating the fill value\<close>

text \<open>
  The pattern is \<^verbatim>\<open>(-?)\d*?(\d{0,I}\.\d{0,F})\<close> with \<open>I\<close> the integer digits and \<open>F\<close>
  the fractional digits.  \<^verbatim>\<open>re.search\<close> takes the leftmost position at which a match
  starts.  At a position, the sign is taken when it is there, the lazy \<^verbatim>\<open>\d*?\<close> skips as
  few digits as possible, and the second group then needs at most \<open>I\<close> digits followed
  at once by a dot: as a run of digits holds no dot, the group matches only where what is
  left of the run is at most \<open>I\<close> digits long.  After the dot it takes up to \<open>F\<close>
  digits.  For a negative \<open>F\<close> Python reads \<^verbatim>\<open>{0,-2}\<close> not as a repetition but as the
  text itself, after one digit.

  \<open>py_float\<close> is \<^verbatim>\<open>float\<close> on the strings the pattern can yield (an optional sign,
  digits, a dot, digits), with the decimal value taken exactly.
\<close>

definition match_group2 :: "int \<Rightarrow> int \<Rightarrow> string \<Rightarrow> string option" where
  "match_group2 I F s =
     (let run = takeWhile is_digit s; rest = dropWhile is_digit s in
      if int (length run) \<le> I \<and> rest \<noteq> [] \<and> hd rest = CHR ''.'' then
        let after = tl rest in
        if F \<ge> 0 then Some (run @ ''.'' @ take (nat F) (takeWhile is_digit after))
        else
          let lit = ''{0,'' @ str_int F @ ''}'' in
          if after \<noteq> [] \<and> is_digit (hd after) \<and> startswith (tl after) lit
          then Some (run @ ''.'' @ [hd after] @ lit)
          else None
      else None)"

fun match_body :: "int \<Rightarrow> int \<Rightarrow> string \<Rightarrow> string option" where
  "match_body I F [] = match_group2 I F []"
| "match_body I F (c # t) =
     (case match_group2 I F (c # t) of
        Some g \<Rightarrow> Some g
      | None \<Rightarrow> if is_digit c then match_body I F t else None)"

definition match_at :: "int \<Rightarrow> int \<Rightarrow> string \<Rightarrow> (string \<times> string) option" where
  "match_at I F s =
     (case (if s \<noteq> [] \<and> hd s = CHR ''-'' then match_body I F (tl s) else None) of
        Some g \<Rightarrow> Some (''-'', g)
      | None \<Rightarrow> map_option (\<lambda>g. ([], g)) (match_body I F s))"

fun re_search :: "int \<Rightarrow> int \<Rightarrow> string \<Rightarrow> (string \<times> string) option" where
  "re_search I F [] = match_at I F []"
| "re_search I F (c # t) =
     (case match_at I F (c # t) of
        Some r \<Rightarrow> Some r
      | None \<Rightarrow> re_search I F t)"

definition py_float :: "string \<Rightarrow> pyerror + real" where
  "py_float s =
     (let neg = (s \<noteq> [] \<and> hd s = CHR ''-'');
          body = (if neg then tl s else s);
          ip = takeWhile is_digit body;
          r = dropWhile is_digit body
      in
      if r \<noteq> [] \<and> hd r = CHR ''.'' \<and> list_all is_digit (tl r) \<and> (ip \<noteq> [] \<or> tl r \<noteq> []) then
        Inr ((if neg then - 1 else 1) *
             (real_of_int (int_of_digits ip)
              + real_of_int (int_of_digits (tl r)) / 10 ^ length (tl r)))
      else Inl (ValueError ''could not convert string to float''))"

definition py_str :: "numpy_lib \<Rightarrow> scalar \<Rightarrow> string" where
  "py_str L v = (case v of IntV i \<Rightarrow> str_int i | FloatV r \<Rightarrow> str_float L r)"

definition truncated_fill_value ::
  "numpy_lib \<Rightarrow> int \<Rightarrow> int \<Rightarrow> scalar list \<Rightarrow> scalar \<Rightarrow> pyerror + scalar" where
  \<comment> \<open>the body of the inner \<^verbatim>\<open>try\<close>\<close>
  "truncated_fill_value L integer_digits fractional_digits unmasked fill_value =
     (case re_search integer_digits fractional_digits (py_str L fill_value) of
        None \<Rightarrow> Inl (AttributeError ''NoneType object has no attribute group'')
      | Some (g1, g2) \<Rightarrow>
          (case py_float (g1 @ g2) of
             Inl e \<Rightarrow> Inl e
           | Inr t \<Rightarrow>
               if list_ex (\<lambda>x. eq_scalar x (FloatV t)) unmasked
               then Inl (AssertionError ''Truncated fill value is ambiguous'')
               else Inr (FloatV t)))"

definition try_truncate ::
  "numpy_lib \<Rightarrow> int \<Rightarrow> int \<Rightarrow> scalar list \<Rightarrow> scalar \<Rightarrow> scalar" where
  \<comment> \<open>the inner \<^verbatim>\<open>try\<close> with its \<^verbatim>\<open>except Exception\<close>, which only logs\<close>
  "try_truncate L integer_digits fractional_digits unmasked fill_value =
     (case truncated_fill_value L integer_digits fractional_digits unmasked fill_value of
        Inl e \<Rightarrow> fill_value
      | Inr t \<Rightarrow> t)"

subsection \<open>\<^verbatim>\<open>fix_field_precision\<close>\<close>

text \<open>
  The result is \<open>None\<close> (no change) or the tuple \<^verbatim>\<open>(aseg_gdf_format, dtype, columns,
  integer_digits, fractional_digits, python_format, fill_value)\<close>.

  \<open>candidates_loop\<close> is the inner \<^verbatim>\<open>for\<close> over the smaller kinds.  The local variable
  \<^verbatim>\<open>fractional_digits\<close> is assigned inside the loop and keeps its new value when the
  loop continues, so it is passed along; a \<^verbatim>\<open>continue\<close> is the recursive call.  The
  loop ends by returning, by raising or by running out of candidates.

  \<open>families_loop\<close> is the outer \<^verbatim>\<open>for\<close> over \<^verbatim>\<open>DTYPE_REDUCTION_LISTS\<close> with its
  \<^verbatim>\<open>try\<close>: a \<^verbatim>\<open>ValueError\<close>, from \<^verbatim>\<open>index\<close> or from anything else in the body, goes
  on to the next family; any other exception leaves the function.  Falling off the end
  returns \<^verbatim>\<open>None\<close>.  For a masked array the mask read from the array is overwritten by
  the comparison with the fill value before it is used.
\<close>

type_synonym reduced = "string \<times> string \<times> int \<times> int \<times> int \<times> string \<times> scalar option"

datatype outcome = Returned reduced | Raised pyerror int | Exhausted int

definition is_ValueError :: "pyerror \<Rightarrow> bool" where
  "is_ValueError e = (case e of ValueError m \<Rightarrow> True | _ \<Rightarrow> False)"

fun candidates_loop ::
  "numpy_lib \<Rightarrow> ndarray \<Rightarrow> bool list \<Rightarrow> scalar option \<Rightarrow> string list \<Rightarrow> int \<Rightarrow> outcome" where
  "candidates_loop L array_variable no_data_mask fill_value [] fractional_digits =
     Exhausted fractional_digits"
| "candidates_loop L array_variable no_data_mask fill_value (smaller_dtype # rest)
     fractional_digits =
     (let data_array = arr_data array_variable in
      case astype L smaller_dtype data_array of
        Inl e \<Rightarrow> Raised e fractional_digits
      | Inr smaller_data \<Rightarrow>
          let diff_dtype = result_type (arr_dtype array_variable) smaller_dtype;
              difference_array = np_sub diff_dtype data_array smaller_data
          in
          if count_nonzero_ge (np_abs diff_dtype difference_array)
               (py_pow10 (- fractional_digits)) > 0
          then candidates_loop L array_variable no_data_mask fill_value rest fractional_digits
          else
            let smaller_array =
                  \<lparr>arr_shape = arr_shape array_variable, arr_dtype = smaller_dtype,
                   arr_data = smaller_data, attr_aseg_gdf_format = None, ma_fill_value = None\<rparr>
            in
            case variable2aseg_gdf_format smaller_array (Some fractional_digits) of
              Inl e \<Rightarrow> Raised e fractional_digits
            | Inr (aseg_gdf_format, dtype, columns, integer_digits, fractional_digits',
                   python_format) \<Rightarrow>
                (case fill_value of
                   None \<Rightarrow>
                     Returned (aseg_gdf_format, dtype, columns, integer_digits,
                               fractional_digits', python_format, None)
                 | Some fv \<Rightarrow>
                     let unmasked = select (map Not no_data_mask) (elems data_array) in
                     if list_ex id no_data_mask then
                       let reduced_precision_fill_value =
                             hd (select no_data_mask (elems data_array))
                       in
                       if list_ex (\<lambda>x. eq_scalar x reduced_precision_fill_value) unmasked
                       then candidates_loop L array_variable no_data_mask fill_value rest
                              fractional_digits'
                       else
                         Returned (aseg_gdf_format, dtype, columns, integer_digits,
                                   fractional_digits', python_format,
                                   Some (try_truncate L integer_digits fractional_digits'
                                           unmasked reduced_precision_fill_value))
                     else
                       Returned (aseg_gdf_format, dtype, columns, integer_digits,
                                 fractional_digits', python_format,
                                 Some (try_truncate L integer_digits fractional_digits'
                                         unmasked fv))))"

fun families_loop ::
  "numpy_lib \<Rightarrow> ndarray \<Rightarrow> string \<Rightarrow> string list list \<Rightarrow> int \<Rightarrow> scalar option
     \<Rightarrow> pyerror + reduced option" where
  "families_loop L array_variable current_dtype [] fractional_digits fill_value = Inr None"
| "families_loop L array_variable current_dtype (dtype_reduction_list # rest) fractional_digits
     fill_value =
     (case index_of dtype_reduction_list current_dtype of
        None \<Rightarrow> families_loop L array_variable current_dtype rest fractional_digits fill_value
      | Some current_dtype_index \<Rightarrow>
          let fill_value' = (case ma_fill_value array_variable of
                               Some m \<Rightarrow> Some m
                             | None \<Rightarrow> fill_value);
              no_data_mask = (case fill_value' of
                                Some fv \<Rightarrow> equal_mask (arr_data array_variable) fv
                              | None \<Rightarrow> [])
          in
          case candidates_loop L array_variable no_data_mask fill_value'
                 (rev (drop (Suc current_dtype_index) dtype_reduction_list)) fractional_digits of
            Returned r \<Rightarrow> Inr (Some r)
          | Raised e fractional_digits' \<Rightarrow>
              if is_ValueError e
              then families_loop L array_variable current_dtype rest fractional_digits' fill_value'
              else Inl e
          | Exhausted fractional_digits' \<Rightarrow>
              families_loop L array_variable current_dtype rest fractional_digits' fill_value')"

definition fix_field_precision ::
  "numpy_lib \<Rightarrow> ndarray \<Rightarrow> string \<Rightarrow> int \<Rightarrow> scalar option \<Rightarrow> pyerror + reduced option" where
  "fix_field_precision L array_variable current_dtype fractional_digits fill_value =
     families_loop L array_variable current_dtype DTYPE_REDUCTION_LISTS fractional_digits
       fill_value"

section \<open>Properties\<close>

lemma has_specifier_prefix_iff:
  "has_specifier_prefix s \<longleftrightarrow>
     (\<exists>ds w d r. s = ds @ w # d # r \<and> list_all is_digit ds \<and> is_word w \<and> is_digit d)"
proof
  show "has_specifier_prefix s \<Longrightarrow>
     \<exists>ds w d r. s = ds @ w # d # r \<and> list_all is_digit ds \<and> is_word w \<and> is_digit d"
  proof (induction s rule: has_specifier_prefix.induct)
    case (1 c d r)
    show ?case
    proof (cases "is_word c \<and> is_digit d")
      case True
      then have "c # d # r = [] @ c # d # r \<and> list_all is_digit [] \<and> is_word c \<and> is_digit d"
        by simp
      then show ?thesis by blast
    next
      case False
      with "1.prems" have c: "is_digit c" and p: "has_specifier_prefix (d # r)"
        by auto
      from "1.IH" [OF p] obtain ds w e r' where
        "d # r = ds @ w # e # r'" "list_all is_digit ds" "is_word w" "is_digit e"
        by blast
      with c have "c # d # r = (c # ds) @ w # e # r' \<and> list_all is_digit (c # ds)
                    \<and> is_word w \<and> is_digit e"
        by simp
      then show ?thesis by blast
    qed
  qed simp_all
next
  assume "\<exists>ds w d r. s = ds @ w # d # r \<and> list_all is_digit ds \<and> is_word w \<and> is_digit d"
  then obtain ds w d r where
    s: "s = ds @ w # d # r" and ds: "list_all is_digit ds" and w: "is_word w" "is_digit d"
    by blast
  from ds w have "has_specifier_prefix (ds @ w # d # r)"
  proof (induction ds)
    case Nil
    then show ?case by simp
  next
    case (Cons a ds)
    then have "has_specifier_prefix (ds @ w # d # r)" by simp
    moreover obtain x y where "ds @ w # d # r = x # y # 
      tl (tl (ds @ w # d # r))"
      by (cases ds; cases "tl ds") auto
    ultimately show ?case using Cons.prems by (cases ds) auto
  qed
  with s show "has_specifier_prefix s" by simp
qed

lemma match_rest_None_iff:
  "match_rest g s = None \<longleftrightarrow> \<not> (\<exists>w d r. s = w # d # r \<and> is_word w \<and> is_digit d)"
  by (cases s; cases "tl s") (auto simp: match_rest_def Let_def)

lemma match_star_Some_prefix:
  "match_star n g s = Some r \<Longrightarrow> has_specifier_prefix s"
proof (induction n g s arbitrary: r rule: match_star.induct)
  case (1 g1 s)
  then have "match_rest g1 s \<noteq> None" by simp
  then obtain w d t where "s = [] @ w # d # t" "is_word w" "is_digit d"
    unfolding match_rest_None_iff by auto
  then show ?case by simp
next
  case (2 n g1 s)
  show ?case
  proof (cases "Suc n \<le> length (takeWhile is_digit s)")
    case False
    with 2 show ?thesis by simp
  next
    case True
    let ?s' = "drop (Suc n) s"
    show ?thesis
    proof (cases "match_star (length (takeWhile is_digit ?s')) (Some (take (Suc n) s)) ?s'")
      case None
      with True 2 show ?thesis by simp
    next
      case (Some r')
      with True "2.IH"(1) have "has_specifier_prefix ?s'" by blast
      then obtain ds w d t where
        s': "?s' = ds @ w # d # t" and ds: "list_all is_digit ds" and w: "is_word w" "is_digit d"
        unfolding has_specifier_prefix_iff by blast
      have "take (Suc n) s = take (Suc n) (takeWhile is_digit s @ dropWhile is_digit s)"
        by simp
      also have "\<dots> = take (Suc n) (takeWhile is_digit s)"
        using True by (simp del: takeWhile_dropWhile_id)
      finally have "set (take (Suc n) s) \<subseteq> set (takeWhile is_digit s)"
        by (simp add: set_take_subset)
      then have "list_all is_digit (take (Suc n) s)"
        by (auto simp: list_all_iff dest: set_takeWhileD)
      with ds have "list_all is_digit (take (Suc n) s @ ds)" by simp
      moreover have "s = (take (Suc n) s @ ds) @ w # d # t"
        using s' by (metis append.assoc append_take_drop_id)
      ultimately show ?thesis unfolding has_specifier_prefix_iff using w by blast
    qed
  qed
qed

lemma match_star_None_D:
  "match_star n g s = None \<Longrightarrow>
     match_rest g s = None \<and>
     (\<forall>j. 1 \<le> j \<and> j \<le> n \<and> j \<le> length (takeWhile is_digit s) \<longrightarrow>
        match_star (length (takeWhile is_digit (drop j s))) (Some (take j s)) (drop j s) = None)"
proof (induction n)
  case 0
  then show ?case by simp
next
  case (Suc n)
  from Suc.prems have rest: "match_star n g s = None"
    by (simp split: if_splits option.splits)
  have top: "Suc n \<le> length (takeWhile is_digit s) \<Longrightarrow>
      match_star (length (takeWhile is_digit (drop (Suc n) s))) (Some (take (Suc n) s))
        (drop (Suc n) s) = None"
    using Suc.prems by (simp split: option.splits)
  from Suc.IH [OF rest] top show ?case
    by (auto simp: le_Suc_eq)
qed

lemma re_match_None_iff: "re_match s = None \<longleftrightarrow> \<not> has_specifier_prefix s"
proof
  assume "re_match s = None"
  then have n: "match_star (length (takeWhile is_digit s)) None s = None"
    by (simp add: re_match_def)
  show "\<not> has_specifier_prefix s"
  proof
    assume "has_specifier_prefix s"
    then obtain ds w d r where
      s: "s = ds @ w # d # r" and ds: "list_all is_digit ds" and w: "is_word w" "is_digit d"
      unfolding has_specifier_prefix_iff by blast
    have tail: "match_rest g (w # d # r) \<noteq> None" for g
      unfolding match_rest_None_iff using w by simp
    show False
    proof (cases "ds = []")
      case True
      from match_star_None_D [OF n] have "match_rest None s = None" by blast
      with tail [of None] s True show False by simp
    next
      case False
      have "takeWhile is_digit s = ds @ takeWhile is_digit (w # d # r)"
        unfolding s using ds by (intro takeWhile_append2) (simp add: list_all_iff)
      then have "length ds \<le> length (takeWhile is_digit s)" by simp
      moreover from False have "1 \<le> length ds" by (cases ds) simp_all
      ultimately have
        "match_star (length (takeWhile is_digit (drop (length ds) s))) (Some (take (length ds) s))
           (drop (length ds) s) = None"
        using match_star_None_D [OF n] by blast
      then have "match_rest (Some (take (length ds) s)) (drop (length ds) s) = None"
        by (blast dest: match_star_None_D)
      with tail [of "Some ds"] show False by (simp add: s)
    qed
  qed
next
  assume "\<not> has_specifier_prefix s"
  then show "re_match s = None"
    unfolding re_match_def by (cases "match_star (length (takeWhile is_digit s)) None s")
      (auto dest: match_star_Some_prefix)
qed

lemma re_match_greedy:
  assumes ds: "list_all is_digit ds" and w: "is_word w" "\<not> is_digit w" and d: "is_digit d"
  shows "re_match (ds @ w # d # r) =
           Some (if ds = [] then None else Some ds, [w], takeWhile is_digit (d # r),
                 if frac_run (d # r) = [] then None else Some (frac_run (d # r)))"
proof -
  let ?s = "ds @ w # d # r"
  have run: "takeWhile is_digit ?s = ds"
    using ds w by (simp add: list_all_iff)
  have rest: "match_rest g (w # d # r) =
      Some (g, [w], takeWhile is_digit (d # r),
            if frac_run (d # r) = [] then None else Some (frac_run (d # r)))" for g
    using w d by (simp add: match_rest_def frac_run_def)
  show ?thesis
  proof (cases ds)
    case Nil
    with run rest show ?thesis by (simp add: re_match_def)
  next
    case (Cons a as)
    then have len: "length ds = Suc (length as)" by simp
    have "match_star (Suc (length as)) None ?s =
            match_star 0 (Some ds) (w # d # r)"
      using run w len rest [of "Some ds"] by simp
    with rest Cons run show ?thesis
      by (simp add: re_match_def)
  qed
qed

lemma decode_greedy:
  assumes "list_all is_digit ds" "is_word w" "\<not> is_digit w" "is_digit d"
  shows "decode_aseg_gdf_format (ds @ w # d # r) =
           Inr (if ds = [] then ColInt 1 else ColStr ds, [upper_char w],
                int_of_digits (takeWhile is_digit (d # r)), int_of_digits (frac_run (d # r)))"
  using re_match_greedy [OF assms, of r]
  by (simp add: decode_aseg_gdf_format_def upper_def int_of_digits_def)

lemma decode_raises_iff:
  "(\<exists>e. decode_aseg_gdf_format s = Inl e) \<longleftrightarrow> s = [] \<or> \<not> has_specifier_prefix s"
  using re_match_None_iff [of s]
  by (cases "re_match s") (auto simp: decode_aseg_gdf_format_def)

lemma is_alpha_word: "is_alpha c \<Longrightarrow> is_word c \<and> \<not> is_digit c"
  by (auto simp: is_word_def is_alpha_def is_digit_def)

lemma upper_char_alpha:
  "is_alpha c \<Longrightarrow> upper_char c \<in> set ''ABCDEFGHIJKLMNOPQRSTUVWXYZ''"
  by (auto simp: is_alpha_def upper_char_def)

lemma digits_runs:
  assumes "list_all is_digit ints"
  shows "takeWhile is_digit ints = ints" and "frac_run ints = []"
proof -
  from assms show "takeWhile is_digit ints = ints"
    by (simp add: list_all_iff)
  from assms have e: "dropWhile is_digit ints = []"
    by (simp add: list_all_iff)
  show "frac_run ints = []"
    unfolding frac_run_def e by simp
qed

lemma digits_dot_runs:
  assumes "list_all is_digit ints" "list_all is_digit fs"
  shows "takeWhile is_digit (ints @ CHR ''.'' # fs) = ints"
    and "frac_run (ints @ CHR ''.'' # fs) = fs"
proof -
  have dot: "\<not> is_digit CHR ''.''" by (simp add: is_digit_def)
  with assms(1) show "takeWhile is_digit (ints @ CHR ''.'' # fs) = ints"
    by (simp add: list_all_iff)
  have "dropWhile (\<lambda>c. c = CHR ''.'') fs = fs"
    using assms(2) dot by (cases fs) auto
  with assms dot show "frac_run (ints @ CHR ''.'' # fs) = fs"
    by (simp add: frac_run_def list_all_iff)
qed

text \<open>
  C5 (as the code has it).  \<^verbatim>\<open>decode_aseg_gdf_format\<close> raises exactly when the string
  is empty or has no prefix made of any number of digits, one word character (a letter,
  a digit or the underscore) and one digit.  For every string of the grammar, that is
  optional digits, one letter, one or more digits and optionally a dot followed by
  digits, it returns: the type code is the letter in upper case, the column count is the
  integer 1 when the prefix is absent, and the fractional digits are 0 when the dot is
  absent.
\<close>

theorem decode_raises_iff_no_specifier_prefix:
  "((\<exists>e. decode_aseg_gdf_format s = Inl e) \<longleftrightarrow> s = [] \<or> \<not> has_specifier_prefix s) \<and>
   (list_all is_digit cols \<and> is_alpha L \<and> ints \<noteq> [] \<and> list_all is_digit ints \<and>
    list_all is_digit fs \<longrightarrow>
      decode_aseg_gdf_format (cols @ L # ints) =
        Inr (if cols = [] then ColInt 1 else ColStr cols, [upper_char L],
             int_of_digits ints, 0) \<and>
      decode_aseg_gdf_format (cols @ L # ints @ CHR ''.'' # fs) =
        Inr (if cols = [] then ColInt 1 else ColStr cols, [upper_char L],
             int_of_digits ints, int_of_digits fs) \<and>
      upper_char L \<in> set ''ABCDEFGHIJKLMNOPQRSTUVWXYZ'')"
proof (intro conjI impI)
  show "(\<exists>e. decode_aseg_gdf_format s = Inl e) \<longleftrightarrow> s = [] \<or> \<not> has_specifier_prefix s"
    by (rule decode_raises_iff)
next
  assume h: "list_all is_digit cols \<and> is_alpha L \<and> ints \<noteq> [] \<and> list_all is_digit ints \<and>
    list_all is_digit fs"
  then obtain d r where ints: "ints = d # r" and d: "is_digit d"
    by (cases ints) auto
  from h have L: "is_word L" "\<not> is_digit L"
    by (simp_all add: is_alpha_word)
  from h have cols: "list_all is_digit cols" and di: "list_all is_digit ints"
    and df: "list_all is_digit fs"
    by simp_all
  have "decode_aseg_gdf_format (cols @ L # d # r) =
      Inr (if cols = [] then ColInt 1 else ColStr cols, [upper_char L],
           int_of_digits (takeWhile is_digit (d # r)), int_of_digits (frac_run (d # r)))"
    by (rule decode_greedy [OF cols L d])
  with digits_runs [OF di] show "decode_aseg_gdf_format (cols @ L # ints) =
      Inr (if cols = [] then ColInt 1 else ColStr cols, [upper_char L], int_of_digits ints, 0)"
    by (simp add: ints int_of_digits_def)
  have "decode_aseg_gdf_format (cols @ L # d # (r @ CHR ''.'' # fs)) =
      Inr (if cols = [] then ColInt 1 else ColStr cols, [upper_char L],
           int_of_digits (takeWhile is_digit (d # (r @ CHR ''.'' # fs))),
           int_of_digits (frac_run (d # (r @ CHR ''.'' # fs))))"
    by (rule decode_greedy [OF cols L d])
  with digits_dot_runs [OF di df] show "decode_aseg_gdf_format (cols @ L # ints @ CHR ''.'' # fs) =
      Inr (if cols = [] then ColInt 1 else ColStr cols, [upper_char L],
           int_of_digits ints, int_of_digits fs)"
    by (simp add: ints)
  from h have "is_alpha L" by simp
  then show "upper_char L \<in> set ''ABCDEFGHIJKLMNOPQRSTUVWXYZ''"
    by (rule upper_char_alpha)
qed

theorem decode_raises_iff_no_specifier_prefix_witness:
  "(\<exists>e. decode_aseg_gdf_format ''F'' = Inl e) \<and>
   decode_aseg_gdf_format ''3f10'' = Inr (ColStr ''3'', ''F'', 10, 0) \<and>
   decode_aseg_gdf_format ''3f10.4'' = Inr (ColStr ''3'', ''F'', 10, 4)"
  using decode_raises_iff_no_specifier_prefix
    [where s = "''F''" and cols = "''3''" and L = "CHR ''f''" and ints = "''10''" and fs = "''4''"]
  by (simp add: is_digit_def is_alpha_def upper_char_def int_of_digits_def digit_val_def)

text \<open>
  C5 as stated fails: the string \<^verbatim>\<open>12\<close> holds no letter, and the function returns, with
  the digit 1 as type code.
\<close>

theorem decode_without_letter_counterexample:
  "\<not> list_ex is_alpha ''12'' \<and>
   decode_aseg_gdf_format ''12'' = Inr (ColInt 1, ''1'', 2, 0)"
  by code_simp

lemma match_star_group1:
  "match_star n g s = Some (g1, g2, g3, g4) \<Longrightarrow>
     g1 = g \<or> (\<exists>ds. g1 = Some ds \<and> ds \<noteq> [] \<and> list_all is_digit ds)"
proof (induction n g s rule: match_star.induct)
  case (1 g s)
  then show ?case
    by (auto simp: match_rest_def Let_def split: list.splits if_splits)
next
  case (2 n g s)
  show ?case
  proof (cases "Suc n \<le> length (takeWhile is_digit s)")
    case False
    with 2 show ?thesis by simp
  next
    case True
    let ?s' = "drop (Suc n) s"
    show ?thesis
    proof (cases "match_star (length (takeWhile is_digit ?s')) (Some (take (Suc n) s)) ?s'")
      case None
      with True 2 show ?thesis by simp
    next
      case (Some r')
      with True "2.prems" have r': "r' = (g1, g2, g3, g4)" by simp
      have "take (Suc n) s = take (Suc n) (takeWhile is_digit s @ dropWhile is_digit s)"
        by simp
      also have "\<dots> = take (Suc n) (takeWhile is_digit s)"
        using True by (simp del: takeWhile_dropWhile_id)
      finally have "set (take (Suc n) s) \<subseteq> set (takeWhile is_digit s)"
        by (simp add: set_take_subset)
      then have dig: "list_all is_digit (take (Suc n) s)"
        by (auto simp: list_all_iff dest: set_takeWhileD)
      from True have ne: "take (Suc n) s \<noteq> []" by (cases s) auto
      from "2.IH"(1) [OF True] Some r'
      have "g1 = Some (take (Suc n) s) \<or> (\<exists>ds. g1 = Some ds \<and> ds \<noteq> [] \<and> list_all is_digit ds)"
        by simp
      with dig ne show ?thesis by blast
    qed
  qed
qed

text \<open>
  C10.  When the specifier carries a column-count prefix, the returned column count is
  the matched digit string itself; without the prefix it is the integer 1.  No result
  holds an integer other than 1: the prefix is never converted.
\<close>

theorem decode_columns_string_or_one:
  "(cols \<noteq> [] \<and> list_all is_digit cols \<and> is_alpha L \<and> is_digit d \<longrightarrow>
      (\<exists>i f. decode_aseg_gdf_format (cols @ L # d # r) = Inr (ColStr cols, [upper_char L], i, f))) \<and>
   (is_alpha L \<and> is_digit d \<longrightarrow>
      (\<exists>i f. decode_aseg_gdf_format (L # d # r) = Inr (ColInt 1, [upper_char L], i, f))) \<and>
   (decode_aseg_gdf_format s = Inr (c, code, i', f') \<longrightarrow>
      c = ColInt 1 \<or> (\<exists>ds. c = ColStr ds \<and> ds \<noteq> [] \<and> list_all is_digit ds))"
proof (intro conjI impI)
  assume h: "cols \<noteq> [] \<and> list_all is_digit cols \<and> is_alpha L \<and> is_digit d"
  then have "list_all is_digit cols" "is_word L" "\<not> is_digit L" "is_digit d"
    by (simp_all add: is_alpha_word)
  from decode_greedy [OF this, of r] h
  show "\<exists>i f. decode_aseg_gdf_format (cols @ L # d # r) = Inr (ColStr cols, [upper_char L], i, f)"
    by simp
next
  assume h: "is_alpha L \<and> is_digit d"
  then have "list_all is_digit []" "is_word L" "\<not> is_digit L" "is_digit d"
    by (simp_all add: is_alpha_word)
  from decode_greedy [OF this, of r]
  show "\<exists>i f. decode_aseg_gdf_format (L # d # r) = Inr (ColInt 1, [upper_char L], i, f)"
    by simp
next
  assume h: "decode_aseg_gdf_format s = Inr (c, code, i', f')"
  then obtain g1 g2 g3 g4 where m: "re_match s = Some (g1, g2, g3, g4)"
    and c: "c = (case g1 of Some x \<Rightarrow> ColStr x | None \<Rightarrow> ColInt 1)"
    by (auto simp: decode_aseg_gdf_format_def split: if_splits option.splits)
  from m match_star_group1 [of _ None s g1 g2 g3 g4]
  have "g1 = None \<or> (\<exists>ds. g1 = Some ds \<and> ds \<noteq> [] \<and> list_all is_digit ds)"
    by (simp add: re_match_def)
  with c show "c = ColInt 1 \<or> (\<exists>ds. c = ColStr ds \<and> ds \<noteq> [] \<and> list_all is_digit ds)"
    by auto
qed

theorem decode_columns_string_or_one_witness:
  "(\<exists>i f. decode_aseg_gdf_format ''3F10.4'' = Inr (ColStr ''3'', ''F'', i, f)) \<and>
   (\<exists>i f. decode_aseg_gdf_format ''F10.4'' = Inr (ColInt 1, ''F'', i, f)) \<and>
   decode_aseg_gdf_format ''12I5'' = Inr (ColStr ''12'', ''I'', 5, 0)"
proof -
  have e: "decode_aseg_gdf_format ''12I5'' = Inr (ColStr ''12'', ''I'', 5, 0)"
    by code_simp
  from decode_columns_string_or_one
    [where cols = "''3''" and L = "CHR ''F''" and d = "CHR ''1''" and r = "''0.4''"
       and s = "''12I5''" and c = "ColStr ''12''" and code = "''I''" and i' = 5 and f' = 0]
  show ?thesis
    using e by (simp add: is_digit_def is_alpha_def upper_char_def)
qed

subsection \<open>\<^verbatim>\<open>aseg_gdf_format2dtype\<close>: the search and the final statement\<close>

lemma find_dtype_smallest:
  assumes "find_dtype p n = Some d"
  shows "\<exists>i<length SIG_FIGS. fst (SIG_FIGS ! i) = d \<and> startswith d p \<and> n \<le> snd (SIG_FIGS ! i) \<and>
           (\<forall>j<i. \<not> (startswith (fst (SIG_FIGS ! j)) p \<and> n \<le> snd (SIG_FIGS ! j)))"
proof -
  let ?P = "\<lambda>e. startswith (fst e) p \<and> n \<le> snd e"
  have eq: "(\<lambda>(test_dtype, sig_figs). startswith test_dtype p \<and> sig_figs \<ge> n) = ?P"
    by (simp add: fun_eq_iff)
  from assms obtain e where f: "find ?P SIG_FIGS = Some e" and d: "d = fst e"
    unfolding find_dtype_def eq by (cases "find ?P SIG_FIGS") simp_all
  from f [unfolded find_Some_iff] obtain i where
    i: "i < length SIG_FIGS" and P: "?P (SIG_FIGS ! i)" and e: "e = SIG_FIGS ! i"
    and least: "\<forall>j<i. \<not> ?P (SIG_FIGS ! j)"
    by blast
  from P d e have "fst (SIG_FIGS ! i) = d \<and> startswith d p \<and> n \<le> snd (SIG_FIGS ! i)"
    by simp
  with i least show ?thesis by blast
qed

lemma resolve_dtype_I5: "resolve_dtype ''I'' 5 0 = Inr (Some ''int32'')"
  by (simp add: resolve_dtype_def find_dtype_def SIG_FIGS_def startswith_def)

lemma aseg_gdf_format2dtype_numeric_raises:
  assumes "decode_aseg_gdf_format s = Inr (c, code, i, f)"
    and "code \<in> {''I'', ''F'', ''D'', ''E''}"
  shows "\<exists>e. aseg_gdf_format2dtype s = Inl e"
  using assms by (auto simp: aseg_gdf_format2dtype_def split: sum.splits)

text \<open>
  C1 (what the code does at the claim's own example).  For the specifier \<^verbatim>\<open>I5\<close> the
  search leaves \<^verbatim>\<open>int32\<close> in the local variable, as \<open>resolve_dtype_I5\<close> shows, and the
  function then raises: the test for the type code \<^verbatim>\<open>A\<close> is an \<^verbatim>\<open>if\<close> of its own,
  whose \<^verbatim>\<open>else\<close> branch takes every other code.
\<close>

theorem aseg_gdf_format2dtype_I5_raises:
  "aseg_gdf_format2dtype ''I5'' = Inl (BaseException ''Unhandled ASEG-GDF dtype code I'')"
  by code_simp

subsection \<open>\<^verbatim>\<open>variable2aseg_gdf_format\<close>\<close>

lemma ceil_log10:
  assumes "10 ^ k < x" "x \<le> 10 ^ Suc k"
  shows "\<lceil>log 10 x\<rceil> = int k + 1"
proof -
  from assms have "0 < x" by (meson less_le_trans zero_less_power zero_less_numeral less_trans)
  moreover have "(10::real) powr real k < x \<and> x \<le> 10 powr (real k + 1)"
    using assms by (simp add: powr_realpow powr_add)
  ultimately show ?thesis
    using ceiling_log_eq_powr_iff [of x 10 k] by (simp add: add.commute)
qed

lemmas v2a_eval =
  variable2aseg_gdf_format_def sig_figs_of_def SIG_FIGS_def np_nanmin_def np_values_def
  integer_digits_of_def np_nanmax_def np_abs_def wrap_dtype_def int_width_def swrap_def
  math_log10_def ASEG_DTYPE_CODE_MAPPING_def float_fractional_digits_def prepend_columns_def
  str_int_def str_nat.simps digit_char_def Let_def





















lemma variable2aseg_gdf_format_unknown_dtype:
  assumes "map_of SIG_FIGS (arr_dtype a) = None"
  shows "variable2aseg_gdf_format a dp = Inl (KeyError (arr_dtype a)) \<or>
         variable2aseg_gdf_format a dp =
           Inl (BaseException ''Unable to handle arrays with dimensionality > 3'')"
  using assms by (simp add: variable2aseg_gdf_format_def sig_figs_of_def Let_def)

text \<open>
  C9 (what the code does).  For an array of text the function raises at its first
  table lookup: \<^verbatim>\<open>SIG_FIGS\<close> has no entry for a text kind, and the lookup comes before
  the branch on the type code.  By \<open>variable2aseg_gdf_format_unknown_dtype\<close> this is so
  for every kind outside the table.
\<close>

theorem variable2aseg_gdf_format_text_raises:
  "variable2aseg_gdf_format
     \<lparr>arr_shape = [2], arr_dtype = ''str'', arr_data = TextData [''ab'', ''c''],
      attr_aseg_gdf_format = None, ma_fill_value = None\<rparr> None = Inl (KeyError ''str'')"
  by (simp add: v2a_eval)

subsection \<open>\<^verbatim>\<open>fix_field_precision\<close>\<close>

lemmas ffp_eval =
  fix_field_precision_def DTYPE_REDUCTION_LISTS_def astype_def result_type_def np_sub_def
  py_pow10_def count_nonzero_ge_def real_values_def equal_mask_def select_def elems_def
  eq_scalar_def scalar_val_def is_ValueError_def try_truncate_def truncated_fill_value_def
  py_str_def match_at_def match_group2_def py_float_def is_digit_def

text \<open>The pattern of the truncation and \<^verbatim>\<open>float\<close>, on the strings of a few fill values.\<close>

lemma re_search_examples:
  "re_search 3 0 ''-9999.0'' = Some (''-'', ''999.'')"
  "re_search 1 2 ''1.0'' = Some ([], ''1.0'')"
  "re_search 2 2 ''1234-56.7'' = Some (''-'', ''56.7'')"
  "re_search 0 2 ''12.345'' = Some ([], ''.34'')"
  "re_search 3 0 ''-1'' = None"
  "re_search 1 (-2) ''1.0'' = None"
  by (simp_all add: ffp_eval startswith_def str_int_def str_nat.simps digit_char_def)

lemma py_float_examples:
  "py_float ''-999.'' = Inr (-999)"
  "py_float ''.5'' = Inr (1/2)"
  "py_float ''-.'' = Inl (ValueError ''could not convert string to float'')"
  by (simp_all add: ffp_eval int_of_digits_def digit_val_def)

text \<open>
  The two scenarios of the specification for 64-bit integers: \<^verbatim>\<open>[100000, 200000]\<close> is
  reduced to \<^verbatim>\<open>int32\<close>, and \<^verbatim>\<open>[3000000000]\<close> is not reduced.
\<close>

lemma fix_field_precision_reduces_to_int32:
  "fix_field_precision L
     \<lparr>arr_shape = [2], arr_dtype = ''int64'', arr_data = IntData [100000, 200000],
      attr_aseg_gdf_format = None, ma_fill_value = None\<rparr> ''int64'' 0 None =
   Inr (Some (''I6'', ''int32'', 1, 6, 0, ''{:6.0f}'', None))"
proof -
  have "\<lceil>log 10 (200001::real)\<rceil> = 6"
    using ceil_log10 [of 5 200001] by simp
  then show ?thesis by (simp add: ffp_eval v2a_eval)
qed

lemma fix_field_precision_no_reduction:
  "fix_field_precision L
     \<lparr>arr_shape = [1], arr_dtype = ''int64'', arr_data = IntData [3000000000],
      attr_aseg_gdf_format = None, ma_fill_value = None\<rparr> ''int64'' 0 None = Inr None"
  by (simp add: ffp_eval v2a_eval)

text \<open>A kind outside both families gives no change, whatever the array.\<close>

lemma fix_field_precision_other_kind:
  assumes "current_dtype \<notin> set (concat DTYPE_REDUCTION_LISTS)"
  shows "fix_field_precision L a current_dtype fractional_digits fill_value = Inr None"
proof -
  from assms have "index_of [''int64'', ''int32'', ''int16'', ''int8''] current_dtype = None"
    and "index_of [''float64'', ''float32''] current_dtype = None"
    by (auto simp: DTYPE_REDUCTION_LISTS_def)
  then show ?thesis
    by (simp add: fix_field_precision_def DTYPE_REDUCTION_LISTS_def del: index_of.simps)
qed

text \<open>
  For an array of floats reduced from \<^verbatim>\<open>float64\<close>, where no integer arithmetic is
  involved, a returned replacement means that every element, masked or not, is within the
  precision of its value as \<^verbatim>\<open>float32\<close>.
\<close>

lemma fix_field_precision_float_within_precision:
  assumes "fix_field_precision L a ''float64'' fractional_digits fill_value = Inr (Some r)"
    and "arr_data a = FloatData xs"
  shows "\<forall>x\<in>set xs. \<bar>x - to_float32 L x\<bar> < py_pow10 (- fractional_digits)"
proof -
  let ?thr = "py_pow10 (- fractional_digits)"
  let ?diff = "np_abs ''float64'' (np_sub ''float64'' (FloatData xs) (FloatData (map (to_float32 L) xs)))"
  have diff: "real_values ?diff = map (\<lambda>x. \<bar>x - to_float32 L x\<bar>) xs"
    by (simp add: np_abs_def np_sub_def real_values_def zip_map2 zip_same_conv_map)
  have "count_nonzero_ge ?diff ?thr = 0"
  proof (rule ccontr)
    assume "count_nonzero_ge ?diff ?thr \<noteq> 0"
    then have "fix_field_precision L a ''float64'' fractional_digits fill_value = Inr None"
      using assms(2)
      by (simp add: fix_field_precision_def DTYPE_REDUCTION_LISTS_def astype_def
          int_width_def result_type_def)
    with assms(1) show False by simp
  qed
  then have "\<forall>v\<in>set (real_values ?diff). \<not> v \<ge> ?thr"
    by (simp add: count_nonzero_ge_def filter_empty_conv)
  then show ?thesis
    unfolding diff by (auto simp: not_le)
qed

text \<open>
  C8 (what the code does).  Two small 64-bit integers fit the smallest kind, \<^verbatim>\<open>int8\<close>,
  which is tried first and accepted; \<^verbatim>\<open>variable2aseg_gdf_format\<close> is then called on the
  \<^verbatim>\<open>int8\<close> array, \<^verbatim>\<open>ASEG_DTYPE_CODE_MAPPING\<close> has no entry for \<^verbatim>\<open>int8\<close>, and the
  assertion error leaves \<^verbatim>\<open>fix_field_precision\<close>, whose handler takes \<^verbatim>\<open>ValueError\<close>
  only.
\<close>

theorem fix_field_precision_int8_raises:
  "fix_field_precision L
     \<lparr>arr_shape = [2], arr_dtype = ''int64'', arr_data = IntData [1, 2],
      attr_aseg_gdf_format = None, ma_fill_value = None\<rparr> ''int64'' 0 None =
   Inl (AssertionError ''Unhandled dtype int8'')"
  by (simp add: ffp_eval v2a_eval)

text \<open>
  C2 (what the code does).  The largest 64-bit integer becomes \<open>-1\<close> as \<^verbatim>\<open>int16\<close>.  The
  difference \<open>2\<^sup>6\<^sup>3\<close> wraps to \<open>-2\<^sup>6\<^sup>3\<close> in 64 bits, its absolute value wraps to
  \<open>-2\<^sup>6\<^sup>3\<close> again, and a negative number is below the threshold: the kind is accepted
  and a replacement returned, although the element is changed by \<open>2\<^sup>6\<^sup>3\<close>.
\<close>

theorem fix_field_precision_accepts_wrapped_difference:
  "fix_field_precision L
     \<lparr>arr_shape = [2], arr_dtype = ''int64'', arr_data = IntData [9223372036854775807, 200],
      attr_aseg_gdf_format = None, ma_fill_value = None\<rparr> ''int64'' 0 None =
     Inr (Some (''I3'', ''int16'', 1, 3, 0, ''{:4.0f}'', None)) \<and>
   astype L ''int16'' (IntData [9223372036854775807, 200]) = Inr (IntData [-1, 200]) \<and>
   \<not> \<bar>real_of_int 9223372036854775807 - real_of_int (-1)\<bar> < py_pow10 (- 0)"
proof -
  have "\<lceil>log 10 (201::real)\<rceil> = 3"
    using ceil_log10 [of 2 201] by simp
  then show ?thesis by (simp add: ffp_eval v2a_eval)
qed

text \<open>
  C3 (what the code does).  The fill value is \<open>-1\<close> and the first element is the only
  masked one.  The second element becomes \<open>-1\<close> as \<^verbatim>\<open>int16\<close> and passes the check as
  above.  The ambiguity test compares the fill value with the elements of the original
  array, not of the narrowed one, so it finds nothing, and the returned fill value \<open>-1\<close>
  equals the narrowed value of an element outside the mask.
\<close>

theorem fix_field_precision_fill_value_collides:
  "fix_field_precision L
     \<lparr>arr_shape = [3], arr_dtype = ''int64'',
      arr_data = IntData [-1, 9223372036854775807, 200],
      attr_aseg_gdf_format = None, ma_fill_value = None\<rparr> ''int64'' 0 (Some (IntV (-1))) =
     Inr (Some (''I3'', ''int16'', 1, 3, 0, ''{:4.0f}'', Some (IntV (-1)))) \<and>
   equal_mask (IntData [-1, 9223372036854775807, 200]) (IntV (-1)) = [True, False, False] \<and>
   astype L ''int16'' (IntData [-1, 9223372036854775807, 200]) = Inr (IntData [-1, -1, 200])"
proof -
  have "\<lceil>log 10 (201::real)\<rceil> = 3"
    using ceil_log10 [of 2 201] by simp
  then show ?thesis by (simp add: ffp_eval v2a_eval)
qed

text \<open>
  The same collision without any wrap-around, for floats: \<open>1 + 2\<^sup>-\<^sup>3\<^sup>0\<close> is not the fill
  value 1, and it is 1 as \<^verbatim>\<open>float32\<close>.  The three assumptions are facts of IEEE 754
  single precision and of Python's \<^verbatim>\<open>str\<close>.
\<close>

lemma fix_field_precision_fill_value_collides_float:
  assumes "to_float32 L 1 = 1" "to_float32 L (1 + 1 / 2 ^ 30) = 1" "str_float L 1 = ''1.0''"
  shows "fix_field_precision L
     \<lparr>arr_shape = [2], arr_dtype = ''float64'', arr_data = FloatData [1, 1 + 1 / 2 ^ 30],
      attr_aseg_gdf_format = None, ma_fill_value = None\<rparr> ''float64'' 2 (Some (FloatV 1)) =
     Inr (Some (''F1.2'', ''float32'', 1, 1, 2, ''{:4.2f}'', Some (FloatV 1)))"
proof -
  have "\<lceil>log 10 (2::real)\<rceil> = 1"
    using ceil_log10 [of 0 2] by simp
  with assms show ?thesis
    by (simp add: ffp_eval v2a_eval int_of_digits_def digit_val_def)
qed

end
